theory Spec2Isabelle
  imports Complex_Main
begin

section \<open>PMC8 wire codec: hexadecimal fields\<close>

text \<open>
  The PMC8 controller exchanges axis positions as six uppercase hexadecimal digits.
  \<^verbatim>\<open>sprintf(h, "%08X", tmp)\<close> and \<^verbatim>\<open>snprintf(cmd, ..., "ESTr%04X!", rateval)\<close>
  print an unsigned value in base 16, zero-padded on the left to a minimum width.
  Unsigned 32-bit values are integers in \<open>[0, 2^32)\<close>.
\<close>

definition hex_digit :: "int \<Rightarrow> char" where
  "hex_digit d = ''0123456789ABCDEF'' ! nat (d mod 16)"

function hex_digits :: "int \<Rightarrow> string" where
  "hex_digits n = (if n < 16 then [hex_digit n] else hex_digits (n div 16) @ [hex_digit (n mod 16)])"
  by pat_completeness auto
termination
  by (relation "measure nat") auto

declare hex_digits.simps [simp del]

text \<open>The conversion \<^verbatim>\<open>%0wX\<close> of printf: at least \<open>w\<close> digits, padded with zeros.\<close>

definition printf_0X :: "nat \<Rightarrow> int \<Rightarrow> string" where
  "printf_0X w n = (let d = hex_digits n in replicate (w - length d) (CHR ''0'') @ d)"

text \<open>
  \<^verbatim>\<open>strtol(num_str, NULL, 0)\<close> on \<^verbatim>\<open>"0X" ++ field\<close>: the digits of the field are read in
  base 16, in either case, up to the first character that is not a hexadecimal digit.
\<close>

definition hex_value :: "char \<Rightarrow> int option" where
  "hex_value c =
     (let k = (of_char c :: int) in
      if 48 \<le> k \<and> k \<le> 57 then Some (k - 48)
      else if 65 \<le> k \<and> k \<le> 70 then Some (k - 55)
      else if 97 \<le> k \<and> k \<le> 102 then Some (k - 87)
      else None)"

fun strtol_hex_acc :: "int \<Rightarrow> string \<Rightarrow> int" where
  "strtol_hex_acc acc [] = acc"
| "strtol_hex_acc acc (c # cs) =
     (case hex_value c of None \<Rightarrow> acc | Some d \<Rightarrow> strtol_hex_acc (16 * acc + d) cs)"

definition strtol_hex :: "string \<Rightarrow> int" where
  "strtol_hex field = strtol_hex_acc 0 field"

text \<open>
  \<^verbatim>\<open>convert_motor_counts_to_hex(int val, char *hex)\<close>. The C \<^verbatim>\<open>int\<close> is a value in
  \<open>[-2^31, 2^31)\<close>; \<^verbatim>\<open>unsigned tmp\<close> is a 32-bit unsigned value, with the wrap-around
  of the conversion, of \<^verbatim>\<open>~tmp\<close> and of \<^verbatim>\<open>tmp++\<close> written out
  (\<^verbatim>\<open>abs(INT_MIN)\<close>, which C leaves undefined, is taken as \<open>2^31\<close>).
  The result is the string \<^verbatim>\<open>h + 2\<close>: the eight digits without the first two.
\<close>

definition u32_of_int :: "int \<Rightarrow> int" where
  "u32_of_int i = i mod 4294967296"

definition u32_not :: "int \<Rightarrow> int" where
  "u32_not t = 4294967295 - t mod 4294967296"

definition u32_incr :: "int \<Rightarrow> int" where
  "u32_incr t = (t + 1) mod 4294967296"

definition convert_motor_counts_to_hex :: "int \<Rightarrow> string" where
  "convert_motor_counts_to_hex val =
     (let tmp = (if val < 0 then u32_incr (u32_not (u32_of_int \<bar>val\<bar>)) else u32_of_int val);
          h = printf_0X 8 tmp
      in drop 2 h)"

text \<open>\<^verbatim>\<open>convert_axispos_to_motor(int axispos)\<close>.\<close>

definition convert_axispos_to_motor :: "int \<Rightarrow> int" where
  "convert_axispos_to_motor axispos =
     (if axispos > 8388608 then 0 - (16777216 - axispos) else axispos)"

text \<open>
  A rendering in exactly \<open>w\<close> digits, lowest digit last. It is not part of the driver: the
  proofs use it to describe what \<^verbatim>\<open>%08X\<close> prints for a value below \<open>16^8\<close>.
\<close>

fun hexW :: "nat \<Rightarrow> int \<Rightarrow> string" where
  "hexW 0 n = []"
| "hexW (Suc w) n = hexW w (n div 16) @ [hex_digit (n mod 16)]"

text \<open>The conversion \<^verbatim>\<open>%d\<close> of printf.\<close>

definition dec_digit :: "int \<Rightarrow> char" where
  "dec_digit d = ''0123456789'' ! nat (d mod 10)"

function dec_digits :: "int \<Rightarrow> string" where
  "dec_digits n = (if n < 10 then [dec_digit n] else dec_digits (n div 10) @ [dec_digit (n mod 10)])"
  by pat_completeness auto
termination
  by (relation "measure nat") auto

declare dec_digits.simps [simp del]

definition printf_d :: "int \<Rightarrow> string" where
  "printf_d i = (if i < 0 then CHR ''-'' # dec_digits (- i) else dec_digits i)"


section \<open>Floating-point values\<close>

text \<open>
  The \<^verbatim>\<open>double\<close> and \<^verbatim>\<open>float\<close> values of the driver are idealised as real numbers: the
  rounding of the floating-point operations is not modelled. The conversion of a floating
  value to \<^verbatim>\<open>int\<close> truncates toward zero; C leaves it undefined when the truncated value
  does not fit the 32-bit \<^verbatim>\<open>int\<close>, which is \<open>None\<close> here.
\<close>

definition c_trunc :: "real \<Rightarrow> int" where
  "c_trunc x = (if 0 \<le> x then \<lfloor>x\<rfloor> else \<lceil>x\<rceil>)"

definition double_to_int :: "real \<Rightarrow> int option" where
  "double_to_int x =
     (let t = c_trunc x in if - 2147483648 \<le> t \<and> t \<le> 2147483647 then Some t else None)"


section \<open>PMC8: rates and coordinates\<close>

definition PMC8_AXIS0_SCALE :: real where "PMC8_AXIS0_SCALE = 4608000"
definition PMC8_AXIS1_SCALE :: real where "PMC8_AXIS1_SCALE = 4608000"
definition ARCSEC_IN_CIRCLE :: real where "ARCSEC_IN_CIRCLE = 1296000"
definition PMC8_MAX_PRECISE_MOTOR_RATE :: int where "PMC8_MAX_PRECISE_MOTOR_RATE = 2641"
definition PMC8_MAX_MOVE_MOTOR_RATE :: int where "PMC8_MAX_MOVE_MOTOR_RATE = 256 * 15"
definition PMC8_MINSLEWRATE :: int where "PMC8_MINSLEWRATE = 55"

text \<open>
  \<^verbatim>\<open>convert_precise_rate_to_motor(float rate, int *mrate)\<close> and
  \<^verbatim>\<open>convert_move_rate_to_motor(float rate, int *mrate)\<close> always return \<^verbatim>\<open>true\<close>; the
  result is the value stored in \<^verbatim>\<open>*mrate\<close>.
\<close>

definition convert_precise_rate_to_motor :: "real \<Rightarrow> int option" where
  "convert_precise_rate_to_motor rate =
     (case double_to_int (25 * rate * (PMC8_AXIS0_SCALE / ARCSEC_IN_CIRCLE)) of
        None \<Rightarrow> None
      | Some mrate \<Rightarrow>
          Some (if mrate > PMC8_MAX_PRECISE_MOTOR_RATE then PMC8_MAX_PRECISE_MOTOR_RATE
                else if mrate < - PMC8_MAX_PRECISE_MOTOR_RATE then - PMC8_MAX_PRECISE_MOTOR_RATE
                else mrate))"

definition convert_move_rate_to_motor :: "real \<Rightarrow> int option" where
  "convert_move_rate_to_motor rate =
     (case double_to_int (rate * (PMC8_AXIS0_SCALE / ARCSEC_IN_CIRCLE)) of
        None \<Rightarrow> None
      | Some mrate \<Rightarrow>
          Some (if mrate > PMC8_MAX_MOVE_MOTOR_RATE then PMC8_MAX_MOVE_MOTOR_RATE
                else if mrate < - PMC8_MAX_MOVE_MOTOR_RATE then - PMC8_MAX_MOVE_MOTOR_RATE
                else mrate))"

definition convert_movespeedindex_to_rate :: "int \<Rightarrow> int" where
  "convert_movespeedindex_to_rate mode =
     (if mode = 0 then 4 * 15
      else if mode = 1 then 16 * 15
      else if mode = 2 then 64 * 15
      else if mode = 3 then 256 * 15
      else 0)"

text \<open>\<^verbatim>\<open>INDI::Telescope::TelescopePierSide\<close>.\<close>

datatype TelescopePierSide = PIER_UNKNOWN | PIER_WEST | PIER_EAST

text \<open>
  The converters to motor counts return \<^verbatim>\<open>false\<close> for a pier side that is neither east
  nor west, and otherwise store the truncated count.
\<close>

datatype 'a stored = Stored 'a | ReturnedFalse | CastOverflow

definition store_int :: "real \<Rightarrow> int stored" where
  "store_int x = (case double_to_int x of None \<Rightarrow> CastOverflow | Some i \<Rightarrow> Stored i)"

text \<open>
  \<^verbatim>\<open>get_local_sidereal_time(pmc8_longitude)\<close> belongs to the astronomy library; its result
  is the argument \<open>lst\<close> of the functions below.
\<close>

definition convert_ra_to_motor :: "real \<Rightarrow> real \<Rightarrow> TelescopePierSide \<Rightarrow> int stored" where
  "convert_ra_to_motor lst ra sop =
     (let hour_angle = lst - ra;
          hour_angle = (if hour_angle > 12 then hour_angle - 24
                        else if hour_angle \<le> - 12 then hour_angle + 24
                        else hour_angle)
      in if sop = PIER_EAST then store_int ((hour_angle - 6) * PMC8_AXIS0_SCALE / 24)
         else if sop = PIER_WEST then store_int ((hour_angle + 6) * PMC8_AXIS0_SCALE / 24)
         else ReturnedFalse)"

definition convert_dec_to_motor :: "real \<Rightarrow> TelescopePierSide \<Rightarrow> int stored" where
  "convert_dec_to_motor dec sop =
     (if sop = PIER_EAST then store_int (((dec - 90) / 360) * PMC8_AXIS1_SCALE)
      else if sop = PIER_WEST then store_int (((- (dec - 90)) / 360) * PMC8_AXIS1_SCALE)
      else ReturnedFalse)"

text \<open>\<^verbatim>\<open>convert_motor_to_radec\<close> always returns \<^verbatim>\<open>true\<close>; the result is \<open>(ra_value, dec_value)\<close>.\<close>

definition convert_motor_to_radec :: "real \<Rightarrow> int \<Rightarrow> int \<Rightarrow> real \<times> real" where
  "convert_motor_to_radec lst racounts deccounts =
     (let motor_angle = (24 * real_of_int racounts) / PMC8_AXIS0_SCALE;
          hour_angle = (if deccounts < 0 then motor_angle + 6 else motor_angle - 6);
          ra_value = lst - hour_angle;
          ra_value = (if ra_value \<ge> 24 then ra_value - 24
                      else if ra_value < 0 then ra_value + 24
                      else ra_value);
          motor_angle = (360 * real_of_int deccounts) / PMC8_AXIS1_SCALE;
          dec_value = (if motor_angle \<ge> 0 then 90 - motor_angle else 90 + motor_angle)
      in (ra_value, dec_value))"

definition destSideOfPier :: "real \<Rightarrow> real \<Rightarrow> real \<Rightarrow> TelescopePierSide" where
  "destSideOfPier lst ra dec =
     (let hour_angle = lst - ra;
          hour_angle = (if hour_angle > 12 then hour_angle - 24
                        else if hour_angle \<le> - 12 then hour_angle + 24
                        else hour_angle)
      in if hour_angle < 0 then PIER_WEST else PIER_EAST)"


section \<open>PMC8: the serial port and the simulator\<close>

text \<open>
  The enumerations \<^verbatim>\<open>PMC8_AXIS\<close>, \<^verbatim>\<open>PMC8_DIRECTION\<close>, \<^verbatim>\<open>PMC8_SYSTEM_STATUS\<close> and
  \<^verbatim>\<open>PMC8_TRACK_RATE\<close> are declared in the driver's header; their values are the ones
  that the functions below name.
\<close>

datatype PMC8_AXIS = PMC8_RA_AXIS | PMC8_DEC_AXIS

text \<open>
  Modelled from the spec: the number that an axis prints as in a frame, \<open>0\<close> for RA and
  \<open>1\<close> for Dec; the header that gives the enumeration its values is not part of the
  sources at hand.
\<close>

definition axis_number :: "PMC8_AXIS \<Rightarrow> int" where
  "axis_number axis = (case axis of PMC8_RA_AXIS \<Rightarrow> 0 | PMC8_DEC_AXIS \<Rightarrow> 1)"

datatype PMC8_DIRECTION = PMC8_N | PMC8_S | PMC8_W | PMC8_E

datatype PMC8_SYSTEM_STATUS = ST_STOPPED | ST_SLEWING | ST_PARKED


text \<open>
  What the serial port does at one exchange (the flush, \<^verbatim>\<open>tty_write\<close> of the command,
  \<^verbatim>\<open>tty_read\<close> of a fixed number of bytes): the write fails, the read fails, or the mount
  answers with some bytes. The state holds the global variables of the driver
  (\<^verbatim>\<open>pmc8_simulation\<close>, \<^verbatim>\<open>simPMC8Info\<close>, \<^verbatim>\<open>simPMC8Data\<close>), the frames written so far and
  what the port will do at the exchanges to come.
\<close>

datatype port_event = WriteError | ReadError | Bytes string

datatype transfer = WriteFailed | ReadFailed | Received string

record pmc8 =
  pmc8_simulation :: bool
  systemStatus :: PMC8_SYSTEM_STATUS
  raDirection :: int
  decDirection :: int
  trackRate :: real
  moveRate :: real
  sent :: "string list"
  port :: "port_event list"

text \<open>
  \<^verbatim>\<open>tty_read(fd, response, n, PMC8_TIMEOUT, &nbytes_read)\<close> returns \<open>n\<close> bytes, or fails
  when fewer arrive in time. A port with nothing more to say times out.
\<close>

definition exchange :: "string \<Rightarrow> nat \<Rightarrow> pmc8 \<Rightarrow> transfer \<times> pmc8" where
  "exchange cmd n s =
     (case port s of
        [] \<Rightarrow> (ReadFailed, s\<lparr>sent := sent s @ [cmd]\<rparr>)
      | WriteError # es \<Rightarrow> (WriteFailed, s\<lparr>port := es\<rparr>)
      | ReadError # es \<Rightarrow> (ReadFailed, s\<lparr>sent := sent s @ [cmd], port := es\<rparr>)
      | Bytes r # es \<Rightarrow>
          (if length r < n then ReadFailed else Received (take n r),
           s\<lparr>sent := sent s @ [cmd], port := es\<rparr>))"

text \<open>
  \<^verbatim>\<open>get_pmc8_tracking_rate_axis(int fd, PMC8_AXIS axis, int &rate)\<close>: \<open>None\<close> is the
  return value \<^verbatim>\<open>false\<close>. In simulation the rate of the RA axis is the simulated track
  rate converted to \<^verbatim>\<open>int\<close>.
\<close>

definition get_pmc8_tracking_rate_axis :: "PMC8_AXIS \<Rightarrow> pmc8 \<Rightarrow> int option \<times> pmc8" where
  "get_pmc8_tracking_rate_axis axis s =
     (let cmd = ''ESGr'' @ printf_d (axis_number axis) @ ''!'' in
      if pmc8_simulation s then
        (case axis of
           PMC8_RA_AXIS \<Rightarrow> (Some (c_trunc (trackRate s)), s)
         | PMC8_DEC_AXIS \<Rightarrow> (Some 0, s))
      else
        (case exchange cmd 10 s of
           (WriteFailed, s') \<Rightarrow> (None, s')
         | (ReadFailed, s') \<Rightarrow> (None, s')
         | (Received response, s') \<Rightarrow>
             if length response \<noteq> 10 then (None, s')
             else (Some (strtol_hex (take 6 (drop 5 response))), s')))"

definition get_pmc8_is_scope_slewing :: "pmc8 \<Rightarrow> bool option \<times> pmc8" where
  "get_pmc8_is_scope_slewing s =
     (case get_pmc8_tracking_rate_axis PMC8_RA_AXIS s of
        (None, s1) \<Rightarrow> (None, s1)
      | (Some rarate, s1) \<Rightarrow>
          (case get_pmc8_tracking_rate_axis PMC8_DEC_AXIS s1 of
             (None, s2) \<Rightarrow> (None, s2)
           | (Some decrate, s2) \<Rightarrow>
               if pmc8_simulation s2 then (Some (systemStatus s2 = ST_SLEWING), s2)
               else (Some (rarate > PMC8_MINSLEWRATE \<or> decrate > PMC8_MINSLEWRATE), s2)))"

definition set_pmc8_direction_axis :: "PMC8_AXIS \<Rightarrow> int \<Rightarrow> pmc8 \<Rightarrow> bool \<times> pmc8" where
  "set_pmc8_direction_axis axis dir s =
     (let cmd = ''ESSd'' @ printf_d (axis_number axis) @ printf_d dir @ ''!'' in
      if pmc8_simulation s then
        (case axis of
           PMC8_RA_AXIS \<Rightarrow> (True, s\<lparr>raDirection := dir\<rparr>)
         | PMC8_DEC_AXIS \<Rightarrow> (True, s\<lparr>decDirection := dir\<rparr>))
      else
        (case exchange cmd 7 s of
           (WriteFailed, s') \<Rightarrow> (False, s')
         | (ReadFailed, s') \<Rightarrow> (False, s')
         | (Received response, s') \<Rightarrow> (length response = 7, s')))"

text \<open>
  The functions below convert a rate to \<^verbatim>\<open>int\<close>; their result is \<open>None\<close> where that
  conversion is undefined, and otherwise the return value and the state.
\<close>

definition set_pmc8_axis_move_rate :: "PMC8_AXIS \<Rightarrow> real \<Rightarrow> pmc8 \<Rightarrow> (bool \<times> pmc8) option" where
  "set_pmc8_axis_move_rate axis rate s =
     (case set_pmc8_direction_axis axis (if rate < 0 then 0 else 1) s of
        (False, s1) \<Rightarrow> Some (False, s1)
      | (True, s1) \<Rightarrow>
          (case convert_move_rate_to_motor \<bar>rate\<bar> of
             None \<Rightarrow> None
           | Some rateval \<Rightarrow>
               (let cmd = ''ESSr'' @ printf_d (axis_number axis)
                            @ printf_0X 4 (u32_of_int rateval) @ ''!'' in
                if pmc8_simulation s1 then Some (True, s1\<lparr>moveRate := rate\<rparr>)
                else
                  (case exchange cmd (length cmd) s1 of
                     (WriteFailed, s2) \<Rightarrow> Some (False, s2)
                   | (ReadFailed, s2) \<Rightarrow> Some (False, s2)
                   | (Received response, s2) \<Rightarrow> Some (length response = 10, s2)))))"

definition set_pmc8_custom_ra_move_rate :: "real \<Rightarrow> pmc8 \<Rightarrow> (bool \<times> pmc8) option" where
  "set_pmc8_custom_ra_move_rate rate s =
     (if \<bar>rate\<bar> > real_of_int PMC8_MAX_MOVE_MOTOR_RATE then Some (False, s)
      else set_pmc8_axis_move_rate PMC8_RA_AXIS rate s)"

definition set_pmc8_custom_dec_move_rate :: "real \<Rightarrow> pmc8 \<Rightarrow> (bool \<times> pmc8) option" where
  "set_pmc8_custom_dec_move_rate rate s =
     (if \<bar>rate\<bar> > real_of_int PMC8_MAX_MOVE_MOTOR_RATE then Some (False, s)
      else set_pmc8_axis_move_rate PMC8_DEC_AXIS rate s)"

text \<open>
  \<^verbatim>\<open>start_pmc8_motion(int fd, PMC8_DIRECTION dir, int mode)\<close>. The return values of the
  two move-rate calls are not looked at.
\<close>

definition start_pmc8_motion :: "PMC8_DIRECTION \<Rightarrow> int \<Rightarrow> pmc8 \<Rightarrow> (bool \<times> pmc8) option" where
  "start_pmc8_motion dir mode s =
     (case get_pmc8_is_scope_slewing s of
        (None, s1) \<Rightarrow> Some (False, s1)
      | (Some isslew, s1) \<Rightarrow>
          if isslew then Some (False, s1)
          else
            (let reqrate = convert_movespeedindex_to_rate mode;
                 reqrate = (if reqrate > PMC8_MAX_MOVE_MOTOR_RATE then PMC8_MAX_MOVE_MOTOR_RATE
                            else if reqrate < - PMC8_MAX_MOVE_MOTOR_RATE
                            then - PMC8_MAX_MOVE_MOTOR_RATE
                            else reqrate);
                 rarate = (case dir of PMC8_W \<Rightarrow> reqrate | PMC8_E \<Rightarrow> - reqrate | _ \<Rightarrow> 0);
                 decrate = (case dir of PMC8_N \<Rightarrow> reqrate | PMC8_S \<Rightarrow> - reqrate | _ \<Rightarrow> 0)
             in case (if rarate \<noteq> 0 then set_pmc8_custom_ra_move_rate (real_of_int rarate) s1
                      else Some (True, s1)) of
                  None \<Rightarrow> None
                | Some (rc_ra, s2) \<Rightarrow>
                    (case (if decrate \<noteq> 0
                           then set_pmc8_custom_dec_move_rate (real_of_int decrate) s2
                           else Some (True, s2)) of
                       None \<Rightarrow> None
                     | Some (rc_dec, s3) \<Rightarrow> Some (True, s3))))"

definition set_pmc8_custom_ra_track_rate :: "real \<Rightarrow> pmc8 \<Rightarrow> (bool \<times> pmc8) option" where
  "set_pmc8_custom_ra_track_rate rate s =
     (case convert_precise_rate_to_motor rate of
        None \<Rightarrow> None
      | Some rateval \<Rightarrow>
          (let cmd = ''ESTr'' @ printf_0X 4 (u32_of_int rateval) @ ''!'' in
           if pmc8_simulation s then Some (True, s\<lparr>trackRate := rate\<rparr>)
           else
             (case exchange cmd (length cmd) s of
                (WriteFailed, s1) \<Rightarrow> Some (False, s1)
              | (ReadFailed, s1) \<Rightarrow> Some (False, s1)
              | (Received response, s1) \<Rightarrow>
                  if length response \<noteq> 9 then Some (False, s1)
                  else Some (set_pmc8_direction_axis PMC8_RA_AXIS 1 s1))))"




section \<open>AstroPhysics: tracking rates, initialisation, slew completion\<close>

text \<open>
  Modelled from the spec: the macro \<^verbatim>\<open>TRACKRATE_SIDEREAL\<close>, whose header is not part of
  the sources at hand; the spec gives the sidereal rate as 15.04106864 arcsec/s.
\<close>

definition TRACKRATE_SIDEREAL :: real where
  "TRACKRATE_SIDEREAL = 15.04106864"

text \<open>
  \<^verbatim>\<open>LX200AstroPhysics::SetTrackRate(double raRate, double deRate)\<close>. The two functions of
  the wire codec that it calls, \<^verbatim>\<open>setAPRATrackRate\<close> and \<^verbatim>\<open>setAPDETrackRate\<close>, are
  arguments: each maps the multiplier it is given to its return code. The result is the
  return value and the calls made, with the multipliers handed over.
\<close>

datatype ap_rate_call = Call_setAPRATrackRate real | Call_setAPDETrackRate real

definition SetTrackRate ::
  "bool \<Rightarrow> (real \<Rightarrow> int) \<Rightarrow> (real \<Rightarrow> int) \<Rightarrow> real \<Rightarrow> real \<Rightarrow> bool \<times> ap_rate_call list" where
  "SetTrackRate isSimulation setAPRATrackRate setAPDETrackRate raRate deRate =
     (let APRARate = (raRate - TRACKRATE_SIDEREAL) / TRACKRATE_SIDEREAL;
          APDERate = deRate / TRACKRATE_SIDEREAL
      in if \<not> isSimulation then
           if setAPRATrackRate APRARate < 0 then (False, [Call_setAPRATrackRate APRARate])
           else if setAPDETrackRate APDERate < 0
           then (False, [Call_setAPRATrackRate APRARate, Call_setAPDETrackRate APDERate])
           else (True, [Call_setAPRATrackRate APRARate, Call_setAPDETrackRate APDERate])
         else (True, []))"

text \<open>
  \<^verbatim>\<open>LX200AstroPhysics::IsMountInitialized(bool *initialized)\<close>. The two readings are the
  results of \<^verbatim>\<open>getLX200RA\<close> and \<^verbatim>\<open>getLX200DEC\<close>, \<open>None\<close> for a non-zero return code.
  The result is \<open>None\<close> for the return value \<^verbatim>\<open>false\<close>, and otherwise the value stored
  in \<^verbatim>\<open>*initialized\<close>.
\<close>

definition IsMountInitialized :: "real option \<Rightarrow> real option \<Rightarrow> bool option" where
  "IsMountInitialized getLX200RA getLX200DEC =
     (case getLX200RA of
        None \<Rightarrow> None
      | Some ra \<Rightarrow>
          (case getLX200DEC of
             None \<Rightarrow> None
           | Some dec \<Rightarrow>
               (let epscheck = 1 / 100000;
                    raZE = (\<bar>ra\<bar> < epscheck);
                    deZE = (\<bar>dec\<bar> < epscheck);
                    de90 = (\<bar>dec - 90\<bar> < epscheck)
                in if (raZE \<and> deZE) \<or> (raZE \<and> de90) then Some False else Some True)))"

text \<open>\<^verbatim>\<open>INDI::Telescope::TelescopeStatus\<close> and the property state \<^verbatim>\<open>IPState\<close>.\<close>

datatype TelescopeStatus =
  SCOPE_IDLE | SCOPE_SLEWING | SCOPE_TRACKING | SCOPE_PARKING | SCOPE_PARKED

datatype IPState = IPS_IDLE | IPS_OK | IPS_BUSY | IPS_ALERT

text \<open>The members of the driver object that \<^verbatim>\<open>ReadScopeStatus\<close> and \<^verbatim>\<open>Goto\<close> use.\<close>

record ap_mount =
  TrackState :: TelescopeStatus
  EqNP_s :: IPState
  AbortSP_s :: IPState
  MovementNSSP_s :: IPState
  MovementWESP_s :: IPState
  currentRA :: real
  currentDEC :: real
  targetRA :: real
  targetDEC :: real
  lastRA :: real
  lastDE :: real
  currentAz :: real
  currentAlt :: real
  lastAZ :: real
  lastAL :: real
  motionCommanded :: bool

text \<open>
  What the mount answers during one call of \<^verbatim>\<open>ReadScopeStatus\<close>: the four position
  readings (\<open>None\<close> for a negative return code) and whether \<^verbatim>\<open>setAPPark\<close> succeeds.
\<close>

record ap_poll =
  getLX200RA :: "real option"
  getLX200DEC :: "real option"
  getLX200Az :: "real option"
  getLX200Alt :: "real option"
  setAPPark_ok :: bool

text \<open>
  Modelled from the spec: \<^verbatim>\<open>SetParked(true)\<close> of the base class, which is not part of
  the sources at hand; the spec's transition table has PARKING, position stasis, PARKED.
\<close>

definition SetParked_true :: "ap_mount \<Rightarrow> ap_mount" where
  "SetParked_true m = m\<lparr>TrackState := SCOPE_PARKED\<rparr>"

text \<open>
  \<^verbatim>\<open>LX200AstroPhysics::ReadScopeStatus()\<close>. In simulation the base class's \<^verbatim>\<open>mountSim\<close>
  does the work; it is the argument \<open>mountSim\<close>. The calls at the end, \<^verbatim>\<open>NewRaDec\<close> and
  \<^verbatim>\<open>syncSideOfPier\<close>, publish the position and the pier side to the client; what they do
  to the property states is left out, and they write neither \<^verbatim>\<open>TrackState\<close> nor the
  snapshots. \<^verbatim>\<open>SetTrackEnabled(false)\<close> sends the tracking-off command; its result is not
  looked at.
\<close>

definition ReadScopeStatus ::
  "bool \<Rightarrow> (ap_mount \<Rightarrow> ap_mount) \<Rightarrow> ap_poll \<Rightarrow> ap_mount \<Rightarrow> bool \<times> ap_mount" where
  "ReadScopeStatus isSimulation mountSim p m =
     (if isSimulation then (True, mountSim m)
      else
        (case getLX200RA p of
           None \<Rightarrow> (False, m\<lparr>EqNP_s := IPS_ALERT\<rparr>)
         | Some ra \<Rightarrow>
             (case getLX200DEC p of
                None \<Rightarrow> (False, m\<lparr>currentRA := ra, EqNP_s := IPS_ALERT\<rparr>)
              | Some dec \<Rightarrow>
                  (let m = m\<lparr>currentRA := ra, currentDEC := dec\<rparr> in
                   if TrackState m = SCOPE_SLEWING then
                     (let dx = lastRA m - currentRA m;
                          dy = lastDE m - currentDEC m;
                          m = (if dx = 0 \<and> dy = 0 then m\<lparr>TrackState := SCOPE_TRACKING\<rparr> else m)
                      in (True, m\<lparr>lastRA := currentRA m, lastDE := currentDEC m\<rparr>))
                   else if TrackState m = SCOPE_PARKING then
                     (case getLX200Az p of
                        None \<Rightarrow> (False, m\<lparr>EqNP_s := IPS_ALERT\<rparr>)
                      | Some az \<Rightarrow>
                          (case getLX200Alt p of
                             None \<Rightarrow> (False, m\<lparr>currentAz := az, EqNP_s := IPS_ALERT\<rparr>)
                           | Some alt \<Rightarrow>
                               (let m = m\<lparr>currentAz := az, currentAlt := alt\<rparr>;
                                    dx = lastAZ m - currentAz m;
                                    dy = lastAL m - currentAlt m
                                in if dx = 0 \<and> dy = 0 then
                                     if \<not> setAPPark_ok p then (False, m)
                                     else (True, (SetParked_true m)\<lparr>lastAZ := currentAz m,
                                                    lastAL := currentAlt m\<rparr>)
                                   else (True, m\<lparr>lastAZ := currentAz m, lastAL := currentAlt m\<rparr>))))
                   else (True, m)))))"

text \<open>
  What the mount answers during one call of \<^verbatim>\<open>Goto\<close>: whether \<^verbatim>\<open>abortSlew\<close>,
  \<^verbatim>\<open>setAPObjectRA\<close> and \<^verbatim>\<open>setAPObjectDEC\<close> succeed, and the return code of \<^verbatim>\<open>Slew\<close>.
\<close>

record ap_goto_io =
  abortSlew_ok :: bool
  setAPObjectRA_ok :: bool
  setAPObjectDEC_ok :: bool
  Slew_err :: int

text \<open>\<^verbatim>\<open>LX200AstroPhysics::Goto(double r, double d)\<close>.\<close>

definition Goto :: "bool \<Rightarrow> ap_goto_io \<Rightarrow> real \<Rightarrow> real \<Rightarrow> ap_mount \<Rightarrow> bool \<times> ap_mount" where
  "Goto isSimulation io r d m =
     (let m = m\<lparr>targetRA := r, targetDEC := d\<rparr>;
          stopped =
            (if EqNP_s m = IPS_BUSY then
               if \<not> isSimulation \<and> \<not> abortSlew_ok io then Inl (m\<lparr>AbortSP_s := IPS_ALERT\<rparr>)
               else
                 (let m = m\<lparr>AbortSP_s := IPS_OK, EqNP_s := IPS_IDLE\<rparr> in
                  if MovementNSSP_s m = IPS_BUSY \<or> MovementWESP_s m = IPS_BUSY
                  then Inr (m\<lparr>MovementNSSP_s := IPS_IDLE, MovementWESP_s := IPS_IDLE,
                               EqNP_s := IPS_IDLE\<rparr>)
                  else Inr m)
             else Inr m)
      in case stopped of
           Inl m \<Rightarrow> (False, m)
         | Inr m \<Rightarrow>
             if \<not> isSimulation then
               if \<not> setAPObjectRA_ok io \<or> \<not> setAPObjectDEC_ok io
               then (False, m\<lparr>EqNP_s := IPS_ALERT\<rparr>)
               else if Slew_err io \<noteq> 0 then (False, m\<lparr>EqNP_s := IPS_ALERT\<rparr>)
               else (True, m\<lparr>motionCommanded := True, lastRA := targetRA m, lastDE := targetDEC m,
                              TrackState := SCOPE_SLEWING, EqNP_s := IPS_BUSY\<rparr>)
             else (True, m\<lparr>TrackState := SCOPE_SLEWING, EqNP_s := IPS_BUSY\<rparr>))"


section \<open>Statements of the specification and sample inputs\<close>

text \<open>
  The hour angle as the specification words it: local sidereal time minus right
  ascension, brought into \<open>(-12, 12]\<close> by whole turns of 24 hours.
\<close>

definition spec_hour_angle :: "real \<Rightarrow> real \<Rightarrow> real" where
  "spec_hour_angle lst ra = (lst - ra) - 24 * real_of_int \<lceil>(lst - ra - 12) / 24\<rceil>"

text \<open>
  The round trip of the specification: right ascension and declination to motor counts
  for a pier side, and the counts back to coordinates, at one sidereal time.
\<close>

definition radec_roundtrip ::
  "real \<Rightarrow> real \<Rightarrow> real \<Rightarrow> TelescopePierSide \<Rightarrow> (real \<times> real) option" where
  "radec_roundtrip lst ra dec sop =
     (case convert_ra_to_motor lst ra sop of
        Stored racounts \<Rightarrow>
          (case convert_dec_to_motor dec sop of
             Stored deccounts \<Rightarrow> Some (convert_motor_to_radec lst racounts deccounts)
           | ReturnedFalse \<Rightarrow> None
           | CastOverflow \<Rightarrow> None)
      | ReturnedFalse \<Rightarrow> None
      | CastOverflow \<Rightarrow> None)"

text \<open>The distance of two right ascensions on the 24-hour circle.\<close>

definition ra_distance :: "real \<Rightarrow> real \<Rightarrow> real" where
  "ra_distance a b = min \<bar>a - b\<bar> (24 - \<bar>a - b\<bar>)"

text \<open>One arc second, in hours of right ascension and in degrees of declination.\<close>

definition arcsec_hours :: real where "arcsec_hours = 1 / (15 * 3600)"
definition arcsec_degrees :: real where "arcsec_degrees = 1 / 3600"


text \<open>A call of the wire codec that succeeds, whatever the multiplier.\<close>

definition codec_accepts :: "real \<Rightarrow> int" where
  "codec_accepts multiplier = 0"

text \<open>A PMC8 state right after connecting, with a port that answers nothing yet.\<close>

definition pmc8_start :: pmc8 where
  "pmc8_start = \<lparr>pmc8_simulation = False, systemStatus = ST_STOPPED, raDirection = 0,
     decDirection = 0, trackRate = 0, moveRate = 0, sent = [], port = []\<rparr>"

text \<open>An AstroPhysics mount that tracks at RA 5 h, Dec 10 degrees, and answers of the mount.\<close>

definition ap_tracking :: ap_mount where
  "ap_tracking = \<lparr>TrackState = SCOPE_TRACKING, EqNP_s = IPS_OK, AbortSP_s = IPS_IDLE,
     MovementNSSP_s = IPS_IDLE, MovementWESP_s = IPS_IDLE, currentRA = 5, currentDEC = 10,
     targetRA = 0, targetDEC = 0, lastRA = 0, lastDE = 0, currentAz = 0, currentAlt = 0,
     lastAZ = 0, lastAL = 0, motionCommanded = False\<rparr>"

definition goto_accepted :: ap_goto_io where
  "goto_accepted = \<lparr>abortSlew_ok = True, setAPObjectRA_ok = True, setAPObjectDEC_ok = True,
     Slew_err = 0\<rparr>"

definition poll_at :: "real \<Rightarrow> real \<Rightarrow> ap_poll" where
  "poll_at ra dec = \<lparr>getLX200RA = Some ra, getLX200DEC = Some dec, getLX200Az = None,
     getLX200Alt = None, setAPPark_ok = True\<rparr>"


section \<open>Hexadecimal fields: printing and reading back\<close>

lemma hex_value_hex_digit: "hex_value (hex_digit d) = Some (d mod 16)"
proof -
  have all: "list_all (\<lambda>k. hex_value (hex_digit k) = Some k) [0..15]"
    by code_simp
  have "d mod 16 \<in> set [0..15]" by simp
  with all have "hex_value (hex_digit (d mod 16)) = Some (d mod 16)"
    unfolding list_all_iff by blast
  then show ?thesis by (simp add: hex_digit_def)
qed

lemma hexW_zero: "hexW w 0 = replicate w (CHR ''0'')"
  by (induction w) (simp_all add: hex_digit_def replicate_append_same)

lemma length_hexW [simp]: "length (hexW w n) = w"
  by (induction w arbitrary: n) simp_all

lemma printf_0X_hexW:
  "0 \<le> n \<Longrightarrow> n < 16 ^ Suc w \<Longrightarrow> printf_0X (Suc w) n = hexW (Suc w) n"
proof (induction w arbitrary: n)
  case 0
  then have "n div 16 = 0" "n mod 16 = n" by simp_all
  with 0 show ?case
    by (simp add: printf_0X_def hex_digits.simps [of n])
next
  case (Suc w)
  show ?case
  proof (cases "n < 16")
    case True
    with Suc.prems have "n div 16 = 0" "n mod 16 = n" by simp_all
    with True show ?thesis
      by (simp add: printf_0X_def hex_digits.simps [of n] hexW_zero replicate_append_same)
  next
    case False
    from Suc.prems have d: "0 \<le> n div 16" "n div 16 < 16 ^ Suc w" by auto
    have "length (printf_0X (Suc w) (n div 16)) = Suc w"
      using Suc.IH [OF d] by simp
    then have le: "length (hex_digits (n div 16)) \<le> Suc w"
      by (simp add: printf_0X_def Let_def)
    have "printf_0X (Suc (Suc w)) n = printf_0X (Suc w) (n div 16) @ [hex_digit (n mod 16)]"
      using False le by (simp add: printf_0X_def Let_def hex_digits.simps [of n] Suc_diff_le)
    then show ?thesis using Suc.IH [OF d] by simp
  qed
qed

lemma hexW_add: "hexW (a + b) n = hexW a (n div 16 ^ b) @ hexW b n"
  by (induction b arbitrary: n) (simp_all add: zdiv_zmult2_eq)

lemma strtol_hexW:
  "strtol_hex_acc acc (hexW w n @ rest) = strtol_hex_acc (acc * 16 ^ w + n mod 16 ^ w) rest"
proof (induction w arbitrary: n rest)
  case 0
  then show ?case by simp
next
  case (Suc w)
  have "strtol_hex_acc acc (hexW (Suc w) n @ rest) =
        strtol_hex_acc (16 * (acc * 16 ^ w + (n div 16) mod 16 ^ w) + n mod 16) rest"
    by (simp add: Suc.IH hex_value_hex_digit)
  also have "16 * (acc * 16 ^ w + (n div 16) mod 16 ^ w) + n mod 16 =
        acc * 16 ^ Suc w + n mod 16 ^ Suc w"
    by (simp add: zmod_zmult2_eq algebra_simps)
  finally show ?case .
qed

text \<open>
  The field that \<^verbatim>\<open>convert_motor_counts_to_hex\<close> writes reads back as the count modulo
  \<open>2^24\<close>, for every count of a 32-bit \<^verbatim>\<open>int\<close> above \<^verbatim>\<open>INT_MIN\<close>.
\<close>

lemma motor_counts_field_value:
  assumes "- 2147483648 < val" "val < 2147483648"
  shows "strtol_hex (convert_motor_counts_to_hex val) = val mod 16777216"
proof -
  define tmp where
    "tmp = (if val < 0 then u32_incr (u32_not (u32_of_int \<bar>val\<bar>)) else u32_of_int val)"
  have tmp: "tmp = val mod 4294967296"
    using assms by (auto simp: tmp_def u32_incr_def u32_not_def u32_of_int_def)
  then have r: "0 \<le> tmp" "tmp < 16 ^ 8" by simp_all
  have "printf_0X 8 tmp = hexW (2 + 6) tmp"
    using printf_0X_hexW [of tmp 7] r by simp
  then have "drop 2 (printf_0X 8 tmp) = hexW 6 tmp"
    by (simp only: hexW_add) simp
  then have "strtol_hex (convert_motor_counts_to_hex val) = strtol_hex_acc 0 (hexW 6 tmp @ [])"
    by (simp add: convert_motor_counts_to_hex_def strtol_hex_def tmp_def Let_def)
  also have "\<dots> = tmp mod 16 ^ 6"
    by (simp only: strtol_hexW) simp
  also have "\<dots> = val mod 16777216"
    unfolding tmp by (simp add: mod_mod_cancel)
  finally show ?thesis .
qed

text \<open>
  Away from the lowest 24-bit value the round trip holds: every count \<open>x\<close> with
  \<open>-2^23 < x \<le> 2^23 - 1\<close> is recovered from its field.
\<close>

lemma motor_counts_roundtrip_inside:
  assumes "- 8388608 < x" "x \<le> 8388607"
  shows "convert_axispos_to_motor (strtol_hex (convert_motor_counts_to_hex x)) = x"
proof -
  have "strtol_hex (convert_motor_counts_to_hex x) = x mod 16777216"
    using assms by (intro motor_counts_field_value) auto
  moreover have "x mod 16777216 = (if x < 0 then x + 16777216 else x)"
  proof (cases "x < 0")
    case True
    with assms have "(x + 16777216) mod 16777216 = x + 16777216"
      by (intro mod_pos_pos_trivial) auto
    with True show ?thesis by simp
  next
    case False
    with assms show ?thesis by simp
  qed
  ultimately show ?thesis using assms by (auto simp: convert_axispos_to_motor_def)
qed

text \<open>
  C1. For every motor count \<open>x\<close> in \<open>[-2^23, 2^23 - 1]\<close> the six-digit two's-complement
  field of \<open>x\<close> should decode to \<open>x\<close>, and every wire value from \<open>2^23\<close> on should decode to
  the wire value minus \<open>2^24\<close>. At \<open>x = -2^23\<close> the driver writes the field \<open>800000\<close>,
  reads it as \<open>8388608\<close>, and \<^verbatim>\<open>convert_axispos_to_motor\<close>, which compares with \<open>>\<close>,
  leaves that value as it is: the count comes back as \<open>+2^23\<close>.
\<close>

theorem motor_counts_roundtrip_lowest_count:
  "convert_motor_counts_to_hex (- 8388608) = ''800000''
   \<and> strtol_hex ''800000'' = 8388608
   \<and> convert_axispos_to_motor (strtol_hex (convert_motor_counts_to_hex (- 8388608))) = 8388608
   \<and> convert_axispos_to_motor 8388608 \<noteq> 8388608 - 16777216"
  by code_simp


section \<open>Conversion of floating values\<close>

lemma double_to_int_in_range:
  assumes "\<bar>x\<bar> < 2147483648"
  shows "double_to_int x = Some (c_trunc x)"
proof -
  have "- 2147483648 \<le> c_trunc x \<and> c_trunc x \<le> 2147483647"
    using assms unfolding c_trunc_def
    by (auto simp: le_floor_iff floor_le_iff ceiling_le_iff le_ceiling_iff)
  then show ?thesis by (simp add: double_to_int_def)
qed

lemma c_trunc_between:
  "(0 \<le> x \<longrightarrow> x - 1 < real_of_int (c_trunc x) \<and> real_of_int (c_trunc x) \<le> x)
   \<and> (x < 0 \<longrightarrow> x \<le> real_of_int (c_trunc x) \<and> real_of_int (c_trunc x) < x + 1)"
  unfolding c_trunc_def by (simp; linarith)

lemma store_int_in_range:
  assumes "\<bar>x\<bar> < 2147483648"
  shows "store_int x = Stored (c_trunc x)"
  using double_to_int_in_range [OF assms] by (simp add: store_int_def)

lemma clamp_max_min:
  "0 \<le> K \<Longrightarrow> (if m > K then K else if m < - K then - K else m) = max (- K) (min K (m::int))"
  by (simp add: max_def min_def)

lemma c_trunc_scaled:
  assumes "0 < k"
  shows "c_trunc (r * k) = (if 0 \<le> r then \<lfloor>r * k\<rfloor> else \<lceil>r * k\<rceil>)"
  using assms by (simp add: c_trunc_def zero_le_mult_iff)


section \<open>Motor counts and coordinates\<close>

text \<open>The count of an RA motor angle, and the angle that the count stands for.\<close>

lemma ra_count_leg:
  fixes ma :: real
  assumes ma: "- 18 < ma" "ma \<le> 18"
  defines "c \<equiv> c_trunc (ma * 4608000 / 24)"
  defines "b \<equiv> (24 * real_of_int c) / 4608000"
  shows "store_int (ma * 4608000 / 24) = Stored c"
    and "\<bar>b - ma\<bar> < 1 / 192000"
    and "min 0 ma \<le> b" and "b \<le> max 0 ma"
proof -
  define m where "m = ma * 4608000 / 24"
  have m: "m = ma * 192000" by (simp add: m_def)
  have "\<bar>m\<bar> < 2147483648" using ma unfolding m by auto
  then show "store_int (ma * 4608000 / 24) = Stored c"
    unfolding c_def m_def [symmetric] by (rule store_int_in_range)
  have b: "b = real_of_int (c_trunc m) / 192000"
    by (simp add: b_def c_def m_def)
  from c_trunc_between [of m]
  show "\<bar>b - ma\<bar> < 1 / 192000" "min 0 ma \<le> b" "b \<le> max 0 ma"
    unfolding b m by (auto simp: field_simps min_def max_def)
qed

text \<open>
  The right ascension that \<^verbatim>\<open>convert_motor_to_radec\<close> computes from an hour angle \<open>h'\<close>
  close to the hour angle \<open>ha\<close> of the target.
\<close>

lemma ra_normalise_leg:
  fixes lst ra ha h' :: real
  assumes lst: "0 \<le> lst" "lst < 24" and ra: "0 \<le> ra" "ra < 24"
      and ha: "ha = (if lst - ra > 12 then lst - ra - 24
                     else if lst - ra \<le> - 12 then lst - ra + 24 else lst - ra)"
      and h': "- 12 < h'" "h' \<le> 12" "\<bar>h' - ha\<bar> < 1 / 192000"
  defines "ra' \<equiv> (if lst - h' \<ge> 24 then lst - h' - 24
                    else if lst - h' < 0 then lst - h' + 24 else lst - h')"
  shows "0 \<le> ra'" and "ra' < 24" and "ra_distance ra' ra < 1 / 192000"
proof -
  show "0 \<le> ra'" "ra' < 24" using lst h' by (auto simp: ra'_def)
  from h'(3) have near: "ha - 1 / 192000 < h'" "h' < ha + 1 / 192000" by linarith+
  consider "ha = lst - ra - 24" | "ha = lst - ra + 24" | "ha = lst - ra"
    using ha by (auto split: if_splits)
  then show "ra_distance ra' ra < 1 / 192000"
  proof cases
    case 1
    with lst ra h'(1,2) near show ?thesis
      unfolding ra'_def ra_distance_def min_def abs_if by (simp split: if_splits; linarith)
  next
    case 2
    with lst ra h'(1,2) near show ?thesis
      unfolding ra'_def ra_distance_def min_def abs_if by (simp split: if_splits; linarith)
  next
    case 3
    with lst ra h'(1,2) near show ?thesis
      unfolding ra'_def ra_distance_def min_def abs_if by (simp split: if_splits; linarith)
  qed
qed

lemma hour_angle_range:
  fixes lst ra :: real
  assumes "0 \<le> lst" "lst < 24" "0 \<le> ra" "ra < 24"
  defines "ha \<equiv> (if lst - ra > 12 then lst - ra - 24
                   else if lst - ra \<le> - 12 then lst - ra + 24 else lst - ra)"
  shows "- 12 < ha" "ha \<le> 12"
  using assms by (auto simp: ha_def)

text \<open>The declination axis, east and west of the pier.\<close>

lemma dec_leg_east:
  fixes dec :: real
  assumes "- 90 \<le> dec" "dec \<le> 90 - 1 / 12800"
  defines "c \<equiv> c_trunc (((dec - 90) / 360) * 4608000)"
  shows "store_int (((dec - 90) / 360) * 4608000) = Stored c" and "c < 0"
    and "\<bar>(90 + (360 * real_of_int c) / 4608000) - dec\<bar> < 1 / 12800"
proof -
  define m where "m = ((dec - 90) / 360) * 4608000"
  have m: "m = (dec - 90) * 12800" by (simp add: m_def)
  have "\<bar>m\<bar> < 2147483648" using assms(1,2) unfolding m by auto
  then show "store_int (((dec - 90) / 360) * 4608000) = Stored c"
    unfolding c_def m_def [symmetric] by (rule store_int_in_range)
  have neg: "m \<le> - 1" using assms(2) unfolding m by (simp add: field_simps)
  with c_trunc_between [of m] have b: "m \<le> real_of_int (c_trunc m)" "real_of_int (c_trunc m) < m + 1"
    by simp_all
  from b neg have "real_of_int (c_trunc m) < 0" by linarith
  then show "c < 0" by (simp add: c_def m_def)
  have "(360 * real_of_int c) / 4608000 = real_of_int (c_trunc m) / 12800"
    by (simp add: c_def m_def)
  then show "\<bar>(90 + (360 * real_of_int c) / 4608000) - dec\<bar> < 1 / 12800"
    using b unfolding m by (auto simp: field_simps)
qed

lemma dec_leg_west:
  fixes dec :: real
  assumes "- 90 \<le> dec" "dec \<le> 90"
  defines "c \<equiv> c_trunc (((- (dec - 90)) / 360) * 4608000)"
  shows "store_int (((- (dec - 90)) / 360) * 4608000) = Stored c" and "0 \<le> c"
    and "\<bar>(90 - (360 * real_of_int c) / 4608000) - dec\<bar> < 1 / 12800"
proof -
  define m where "m = ((- (dec - 90)) / 360) * 4608000"
  have m: "m = (90 - dec) * 12800" by (simp add: m_def)
  have "\<bar>m\<bar> < 2147483648" using assms(1,2) unfolding m by auto
  then show "store_int (((- (dec - 90)) / 360) * 4608000) = Stored c"
    unfolding c_def m_def [symmetric] by (rule store_int_in_range)
  have pos: "0 \<le> m" using assms(2) unfolding m by simp
  with c_trunc_between [of m] have b: "m - 1 < real_of_int (c_trunc m)" "real_of_int (c_trunc m) \<le> m"
    by simp_all
  from pos have "0 \<le> c_trunc m" by (simp add: c_trunc_def)
  then show "0 \<le> c" by (simp add: c_def m_def)
  have "(360 * real_of_int c) / 4608000 = real_of_int (c_trunc m) / 12800"
    by (simp add: c_def m_def)
  then show "\<bar>(90 - (360 * real_of_int c) / 4608000) - dec\<bar> < 1 / 12800"
    using b unfolding m by (auto simp: field_simps)
qed

text \<open>
  C2. For a right ascension in \<open>[0, 24)\<close>, a declination in \<open>[-90, 90]\<close>, a sidereal time
  in \<open>[0, 24)\<close> and a pier side east or west, the conversion to motor counts followed by
  \<^verbatim>\<open>convert_motor_to_radec\<close> gives a right ascension within one arc second of the first,
  measured on the 24-hour circle, and a declination within one arc second, provided
  that, east of the pier, the declination is at least one motor count (1/12800 of a degree)
  away from the pole. \<^verbatim>\<open>convert_motor_to_radec\<close> reads the pier side off the sign of the
  declination count, and the count \<open>0\<close> reads as west.
\<close>

theorem radec_roundtrip_within_arcsec:
  assumes lst: "0 \<le> lst" "lst < 24" and ra: "0 \<le> ra" "ra < 24"
      and dec: "- 90 \<le> dec" "dec \<le> 90"
      and sop: "sop = PIER_WEST \<or> (sop = PIER_EAST \<and> dec \<le> 90 - 1 / 12800)"
  shows "case radec_roundtrip lst ra dec sop of
           None \<Rightarrow> False
         | Some (ra', dec') \<Rightarrow>
             0 \<le> ra' \<and> ra' < 24 \<and> ra_distance ra' ra \<le> arcsec_hours
             \<and> \<bar>dec' - dec\<bar> \<le> arcsec_degrees"
proof -
  define ha where "ha = (if lst - ra > 12 then lst - ra - 24
                         else if lst - ra \<le> - 12 then lst - ra + 24 else lst - ra)"
  have ha: "- 12 < ha" "ha \<le> 12"
    using hour_angle_range [OF lst ra] by (simp_all add: ha_def)
  from sop show ?thesis
  proof
    assume w: "sop = PIER_WEST"
    define ma where "ma = ha + 6"
    define rc where "rc = c_trunc (ma * 4608000 / 24)"
    define b where "b = (24 * real_of_int rc) / 4608000"
    define dc where "dc = c_trunc (((- (dec - 90)) / 360) * 4608000)"
    have ma: "- 18 < ma" "ma \<le> 18" using ha by (simp_all add: ma_def)
    note r = ra_count_leg [OF ma, folded rc_def b_def]
    note d = dec_leg_west [OF dec, folded dc_def]
    have h: "- 12 < b - 6" "b - 6 \<le> 12" "\<bar>(b - 6) - ha\<bar> < 1 / 192000"
      using r(2,3,4) ha by (auto simp: ma_def min_def max_def split: if_splits)
    note n = ra_normalise_leg [OF lst ra ha_def h]
    have cr: "convert_ra_to_motor lst ra sop = Stored rc"
      unfolding convert_ra_to_motor_def Let_def PMC8_AXIS0_SCALE_def ha_def [symmetric]
        ma_def [symmetric] w
      by (simp only: r(1) TelescopePierSide.simps if_True if_False simp_thms)
    have cd: "convert_dec_to_motor dec sop = Stored dc"
      unfolding convert_dec_to_motor_def PMC8_AXIS1_SCALE_def w
      by (simp only: d(1) TelescopePierSide.simps if_True if_False simp_thms)
    have rt: "radec_roundtrip lst ra dec sop =
        Some (if lst - (b - 6) \<ge> 24 then lst - (b - 6) - 24
              else if lst - (b - 6) < 0 then lst - (b - 6) + 24 else lst - (b - 6),
              90 - (360 * real_of_int dc) / 4608000)"
      using d(2)
      by (simp add: radec_roundtrip_def cr cd convert_motor_to_radec_def Let_def
          PMC8_AXIS0_SCALE_def PMC8_AXIS1_SCALE_def b_def)
    show ?thesis
      unfolding rt using n d(3) by (simp add: arcsec_hours_def arcsec_degrees_def)
  next
    assume e: "sop = PIER_EAST \<and> dec \<le> 90 - 1 / 12800"
    then have e1: "sop = PIER_EAST" and dec': "dec \<le> 90 - 1 / 12800" by simp_all
    define ma where "ma = ha - 6"
    define rc where "rc = c_trunc (ma * 4608000 / 24)"
    define b where "b = (24 * real_of_int rc) / 4608000"
    define dc where "dc = c_trunc (((dec - 90) / 360) * 4608000)"
    have ma: "- 18 < ma" "ma \<le> 18" using ha by (simp_all add: ma_def)
    note r = ra_count_leg [OF ma, folded rc_def b_def]
    note d = dec_leg_east [OF dec(1) dec', folded dc_def]
    have h: "- 12 < b + 6" "b + 6 \<le> 12" "\<bar>(b + 6) - ha\<bar> < 1 / 192000"
      using r(2,3,4) ha by (auto simp: ma_def min_def max_def split: if_splits)
    note n = ra_normalise_leg [OF lst ra ha_def h]
    have cr: "convert_ra_to_motor lst ra sop = Stored rc"
      unfolding convert_ra_to_motor_def Let_def PMC8_AXIS0_SCALE_def ha_def [symmetric]
        ma_def [symmetric] e1
      by (simp only: r(1) TelescopePierSide.simps if_True if_False simp_thms)
    have cd: "convert_dec_to_motor dec sop = Stored dc"
      unfolding convert_dec_to_motor_def PMC8_AXIS1_SCALE_def e1
      by (simp only: d(1) TelescopePierSide.simps if_True if_False simp_thms)
    have rt: "radec_roundtrip lst ra dec sop =
        Some (if lst - (b + 6) \<ge> 24 then lst - (b + 6) - 24
              else if lst - (b + 6) < 0 then lst - (b + 6) + 24 else lst - (b + 6),
              90 + (360 * real_of_int dc) / 4608000)"
      using d(2)
      by (simp add: radec_roundtrip_def cr cd convert_motor_to_radec_def Let_def
          PMC8_AXIS0_SCALE_def PMC8_AXIS1_SCALE_def b_def)
    show ?thesis
      unfolding rt using n d(3) by (simp add: arcsec_hours_def arcsec_degrees_def)
  qed
qed

text \<open>The target of the Goto scenario of the specification: LST 10 h, RA 4 h, Dec 45 degrees.\<close>

theorem radec_roundtrip_within_arcsec_witness:
  "(0::real) \<le> 10 \<and> (10::real) < 24 \<and> (0::real) \<le> 4 \<and> (4::real) < 24
   \<and> (- 90 :: real) \<le> 45 \<and> (45::real) \<le> 90 - 1 / 12800
   \<and> radec_roundtrip 10 4 45 PIER_EAST = Some (4, 45)
   \<and> ra_distance 4 4 \<le> arcsec_hours \<and> \<bar>45 - 45 :: real\<bar> \<le> arcsec_degrees"
proof -
  have v: "radec_roundtrip 10 4 45 PIER_EAST = Some (4, 45)"
    by (simp add: radec_roundtrip_def convert_ra_to_motor_def convert_dec_to_motor_def
      convert_motor_to_radec_def store_int_def double_to_int_def c_trunc_def
      PMC8_AXIS0_SCALE_def PMC8_AXIS1_SCALE_def)
  from radec_roundtrip_within_arcsec [of 10 4 45 PIER_EAST] show ?thesis
    unfolding v by simp
qed

text \<open>
  At the pole, east of the pier, the declination count is \<open>0\<close> and the right ascension
  comes back twelve hours away.
\<close>

theorem radec_roundtrip_counterexample:
  "radec_roundtrip 0 0 90 PIER_EAST = Some (12, 90)
   \<and> \<not> ra_distance 12 0 \<le> arcsec_hours"
  by (simp add: radec_roundtrip_def convert_ra_to_motor_def convert_dec_to_motor_def
      convert_motor_to_radec_def store_int_def double_to_int_def c_trunc_def
      PMC8_AXIS0_SCALE_def PMC8_AXIS1_SCALE_def ra_distance_def arcsec_hours_def)



section \<open>Tracking rates\<close>

text \<open>
  C3. For every pair of rates in arcsec/s, \<^verbatim>\<open>SetTrackRate\<close> hands the RA multiplier
  \<open>(raRate - 15.04106864) / 15.04106864\<close> and the Dec multiplier \<open>deRate / 15.04106864\<close> to
  the wire codec as they are, the Dec call only after the RA call succeeded; it returns
  success exactly when both calls succeed, and in simulation it calls nothing. It applies
  no clamp: the limits \<open>998.9999\<close> and \<open>15026.0258\<close> are the bounds that
  \<^verbatim>\<open>initProperties\<close> declares for the track-rate property.
\<close>

theorem SetTrackRate_multipliers:
  "snd (SetTrackRate False setRA setDE raRate deRate) =
     (if setRA ((raRate - 15.04106864) / 15.04106864) < 0
      then [Call_setAPRATrackRate ((raRate - 15.04106864) / 15.04106864)]
      else [Call_setAPRATrackRate ((raRate - 15.04106864) / 15.04106864),
            Call_setAPDETrackRate (deRate / 15.04106864)])
   \<and> fst (SetTrackRate False setRA setDE raRate deRate) =
       (0 \<le> setRA ((raRate - 15.04106864) / 15.04106864) \<and> 0 \<le> setDE (deRate / 15.04106864))
   \<and> SetTrackRate True setRA setDE raRate deRate = (True, [])"
  by (simp add: SetTrackRate_def TRACKRATE_SIDEREAL_def Let_def)

text \<open>The rate 15026.03 is accepted, and its multiplier lies inside the limits.\<close>

theorem SetTrackRate_multipliers_witness:
  "SetTrackRate False codec_accepts codec_accepts 15026.03 0 =
     (True, [Call_setAPRATrackRate ((15026.03 - 15.04106864) / 15.04106864), Call_setAPDETrackRate 0])
   \<and> (15026.03 - 15.04106864) / 15.04106864 \<le> (998.9999 :: real)
   \<and> - 998.9999 \<le> (15026.03 - 15.04106864) / (15.04106864 :: real)"
  using SetTrackRate_multipliers [of codec_accepts codec_accepts "15026.03" 0]
  by (simp add: prod_eq_iff codec_accepts_def)

text \<open>The rate 20000 is accepted as well, and its multiplier goes out above 998.9999.\<close>

theorem SetTrackRate_counterexample:
  "SetTrackRate False codec_accepts codec_accepts 20000 0 =
     (True, [Call_setAPRATrackRate ((20000 - 15.04106864) / 15.04106864), Call_setAPDETrackRate 0])
   \<and> \<not> ((20000 - 15.04106864) / 15.04106864 \<le> (998.9999 :: real))"
  by (simp add: SetTrackRate_def TRACKRATE_SIDEREAL_def codec_accepts_def)

text \<open>
  C4. For every requested rate whose scaled value fits an \<^verbatim>\<open>int\<close>, the precise RA track
  motor rate is \<open>25 \<times> rate \<times> 4608000 / 1296000\<close> truncated toward zero and clamped to
  \<open>[-2641, 2641]\<close>, and the move motor rate is \<open>rate \<times> 4608000 / 1296000\<close> truncated toward
  zero and clamped to \<open>[-3840, 3840]\<close>.
\<close>

theorem convert_rate_to_motor_truncates:
  assumes "\<bar>25 * prate * (4608000 / 1296000)\<bar> < 2147483648"
      and "\<bar>mrate * (4608000 / 1296000)\<bar> < 2147483648"
  shows "convert_precise_rate_to_motor prate =
           Some (max (- 2641) (min 2641
             (if 0 \<le> prate then \<lfloor>25 * prate * (4608000 / 1296000)\<rfloor>
              else \<lceil>25 * prate * (4608000 / 1296000)\<rceil>)))
       \<and> convert_move_rate_to_motor mrate =
           Some (max (- 3840) (min 3840
             (if 0 \<le> mrate then \<lfloor>mrate * (4608000 / 1296000)\<rfloor>
              else \<lceil>mrate * (4608000 / 1296000)\<rceil>)))"
proof -
  define k :: real where "k = 4608000 / 1296000"
  have k: "0 < k" by (simp add: k_def)
  have p: "c_trunc (25 * prate * k) =
           (if 0 \<le> prate then \<lfloor>25 * prate * k\<rfloor> else \<lceil>25 * prate * k\<rceil>)"
    using k by (simp add: c_trunc_def zero_le_mult_iff)
  have m: "c_trunc (mrate * k) = (if 0 \<le> mrate then \<lfloor>mrate * k\<rfloor> else \<lceil>mrate * k\<rceil>)"
    using k by (rule c_trunc_scaled)
  have mx: "PMC8_MAX_MOVE_MOTOR_RATE = 3840" by (simp add: PMC8_MAX_MOVE_MOTOR_RATE_def)
  have "convert_precise_rate_to_motor prate =
        Some (max (- 2641) (min 2641 (c_trunc (25 * prate * k))))"
    unfolding convert_precise_rate_to_motor_def PMC8_AXIS0_SCALE_def ARCSEC_IN_CIRCLE_def
      PMC8_MAX_PRECISE_MOTOR_RATE_def
    using assms(1)
    by (simp only: k_def [symmetric] double_to_int_in_range option.case clamp_max_min)
  moreover have "convert_move_rate_to_motor mrate =
        Some (max (- 3840) (min 3840 (c_trunc (mrate * k))))"
    unfolding convert_move_rate_to_motor_def PMC8_AXIS0_SCALE_def ARCSEC_IN_CIRCLE_def mx
    using assms(2)
    by (simp only: k_def [symmetric] double_to_int_in_range option.case clamp_max_min)
  ultimately show ?thesis
    unfolding p m unfolding k_def by (rule conjI)
qed

text \<open>Rates of 1 and -1 arcsec/s, and a move rate beyond the ceiling.\<close>

theorem convert_rate_to_motor_truncates_witness:
  "convert_precise_rate_to_motor 1 = Some 88 \<and> convert_move_rate_to_motor 1 = Some 3
   \<and> convert_precise_rate_to_motor (- 1) = Some (- 88)
   \<and> convert_move_rate_to_motor 2000 = Some 3840"
  using convert_rate_to_motor_truncates [of 1 1] convert_rate_to_motor_truncates [of "- 1" 2000]
  by simp

text \<open>
  At 1 arcsec/s rounding to the nearest integer gives 89 and 4; the driver stores 88 and 3.
\<close>

theorem convert_rate_to_motor_rounding_counterexample:
  "convert_precise_rate_to_motor 1 = Some 88
   \<and> round (25 * 1 * 4608000 / 1296000 :: real) = 89
   \<and> convert_move_rate_to_motor 1 = Some 3
   \<and> round (1 * 4608000 / 1296000 :: real) = 4"
  by (simp add: convert_precise_rate_to_motor_def convert_move_rate_to_motor_def
      double_to_int_def c_trunc_def PMC8_AXIS0_SCALE_def ARCSEC_IN_CIRCLE_def
      PMC8_MAX_PRECISE_MOTOR_RATE_def PMC8_MAX_MOVE_MOTOR_RATE_def round_def)





section \<open>Pier side and initialisation\<close>

lemma spec_hour_angle_range: "- 12 < spec_hour_angle lst ra \<and> spec_hour_angle lst ra \<le> 12"
proof -
  define x where "x = (lst - ra - 12) / 24"
  have a: "real_of_int \<lceil>x\<rceil> < x + 1" and b: "x \<le> real_of_int \<lceil>x\<rceil>" by linarith+
  have c: "24 * x = lst - ra - 12" by (simp add: x_def)
  show ?thesis
    unfolding spec_hour_angle_def x_def [symmetric] using a b c by linarith
qed

text \<open>
  C8. With the sidereal time and the right ascension in \<open>[0, 24)\<close>, the hour angle that
  \<^verbatim>\<open>destSideOfPier\<close> computes is \<open>LST - RA\<close> normalised to \<open>(-12, 12]\<close>; the result is west
  when it is negative and east otherwise, never unknown, and east when it is exactly 0.
\<close>

theorem destSideOfPier_hour_angle:
  assumes "0 \<le> lst" "lst < 24" "0 \<le> ra" "ra < 24"
  shows "- 12 < spec_hour_angle lst ra \<and> spec_hour_angle lst ra \<le> 12
       \<and> destSideOfPier lst ra dec = (if spec_hour_angle lst ra < 0 then PIER_WEST else PIER_EAST)
       \<and> destSideOfPier lst ra dec \<noteq> PIER_UNKNOWN
       \<and> (spec_hour_angle lst ra = 0 \<longrightarrow> destSideOfPier lst ra dec = PIER_EAST)"
proof -
  define x where "x = lst - ra"
  have x: "- 24 < x" "x < 24" using assms by (simp_all add: x_def)
  have c: "\<lceil>(x - 12) / 24\<rceil> = (if x > 12 then 1 else if x \<le> - 12 then - 1 else 0)"
    using x by (auto simp: ceiling_eq_iff)
  have h: "spec_hour_angle lst ra = (if x > 12 then x - 24 else if x \<le> - 12 then x + 24 else x)"
    unfolding spec_hour_angle_def x_def [symmetric] c by simp
  show ?thesis
    using spec_hour_angle_range [of lst ra] unfolding h
    by (simp add: destSideOfPier_def x_def Let_def)
qed

text \<open>On the meridian (hour angle 0) the side is east; two hours before it, west.\<close>

theorem destSideOfPier_hour_angle_witness:
  "(0::real) \<le> 10 \<and> (10::real) < 24 \<and> (0::real) \<le> 12 \<and> (12::real) < 24
   \<and> spec_hour_angle 10 10 = 0 \<and> destSideOfPier 10 10 45 = PIER_EAST
   \<and> spec_hour_angle 10 12 = - 2 \<and> destSideOfPier 10 12 45 = PIER_WEST"
  using destSideOfPier_hour_angle [of 10 10 45] destSideOfPier_hour_angle [of 10 12 45]
  by (simp add: spec_hour_angle_def)

text \<open>
  C7. When both readings succeed, the mount is found uninitialised exactly when the
  right ascension is 0 and the declination is 0 or 90, each within the tolerance \<open>1e-5\<close>;
  for every other reading \<^verbatim>\<open>IsMountInitialized\<close> reports an initialised mount.
\<close>

theorem IsMountInitialized_tolerance:
  "IsMountInitialized (Some ra) (Some dec) =
     Some (\<not> (\<bar>ra - 0\<bar> < 1 / 100000 \<and> (\<bar>dec - 0\<bar> < 1 / 100000 \<or> \<bar>dec - 90\<bar> < 1 / 100000)))"
  by (auto simp: IsMountInitialized_def Let_def)


section \<open>Slew completion on the AstroPhysics mount\<close>

text \<open>
  C5. While the state is SLEWING, a call of \<^verbatim>\<open>ReadScopeStatus\<close> that reads the position
  compares it with the last snapshot: the state becomes TRACKING exactly when both
  differences are zero, and stays SLEWING otherwise; in either case the snapshot becomes
  the position just read. The snapshot is the position of the previous call, or, at the
  first call after a \<^verbatim>\<open>Goto\<close>, the target that \<^verbatim>\<open>Goto\<close> stored in it.
\<close>

theorem ReadScopeStatus_slewing:
  assumes "TrackState m = SCOPE_SLEWING"
      and "getLX200RA p = Some ra" and "getLX200DEC p = Some dec"
  shows "fst (ReadScopeStatus False mountSim p m)
       \<and> TrackState (snd (ReadScopeStatus False mountSim p m)) =
           (if lastRA m - ra = 0 \<and> lastDE m - dec = 0 then SCOPE_TRACKING else SCOPE_SLEWING)
       \<and> lastRA (snd (ReadScopeStatus False mountSim p m)) = ra
       \<and> lastDE (snd (ReadScopeStatus False mountSim p m)) = dec
       \<and> (Goto False io r d m0 = (True, m) \<longrightarrow> lastRA m = r \<and> lastDE m = d)"
proof -
  have "lastRA m = r \<and> lastDE m = d" if "Goto False io r d m0 = (True, m)"
    using that by (auto simp: Goto_def Let_def split: if_splits sum.splits)
  then show ?thesis
    using assms by (simp add: ReadScopeStatus_def Let_def)
qed

text \<open>
  A slew to RA 1 h, Dec 2 degrees; the mount is read at RA 3 h, Dec 4 degrees twice.
\<close>

theorem ReadScopeStatus_slewing_witness:
  "TrackState (snd (Goto False goto_accepted 1 2 ap_tracking)) = SCOPE_SLEWING
   \<and> getLX200RA (poll_at 3 4) = Some 3 \<and> getLX200DEC (poll_at 3 4) = Some 4
   \<and> Goto False goto_accepted 1 2 ap_tracking = (True, snd (Goto False goto_accepted 1 2 ap_tracking))
   \<and> TrackState (snd (ReadScopeStatus False id (poll_at 3 4)
        (snd (Goto False goto_accepted 1 2 ap_tracking)))) = SCOPE_SLEWING
   \<and> lastRA (snd (ReadScopeStatus False id (poll_at 3 4)
        (snd (Goto False goto_accepted 1 2 ap_tracking)))) = 3
   \<and> TrackState (snd (ReadScopeStatus False id (poll_at 3 4)
        (snd (ReadScopeStatus False id (poll_at 3 4)
          (snd (Goto False goto_accepted 1 2 ap_tracking)))))) = SCOPE_TRACKING"
proof -
  let ?m = "snd (Goto False goto_accepted 1 2 ap_tracking)"
  let ?m1 = "snd (ReadScopeStatus False id (poll_at 3 4) ?m)"
  have g: "Goto False goto_accepted 1 2 ap_tracking = (True, ?m)"
    by (simp add: Goto_def goto_accepted_def ap_tracking_def)
  have s: "TrackState ?m = SCOPE_SLEWING"
    by (simp add: Goto_def goto_accepted_def ap_tracking_def)
  have l: "lastRA ?m = 1" "lastDE ?m = 2"
    by (simp_all add: Goto_def goto_accepted_def ap_tracking_def)
  have p: "getLX200RA (poll_at 3 4) = Some 3" "getLX200DEC (poll_at 3 4) = Some 4"
    by (simp_all add: poll_at_def)
  note first = ReadScopeStatus_slewing [OF s p, of id goto_accepted 1 2 ap_tracking]
  from first l have s1: "TrackState ?m1 = SCOPE_SLEWING" by simp
  from first have l1: "lastRA ?m1 = 3" "lastDE ?m1 = 4" by simp_all
  note second = ReadScopeStatus_slewing [OF s1 p, of id goto_accepted 1 2 ap_tracking]
  from second l1
  have "TrackState (snd (ReadScopeStatus False id (poll_at 3 4) ?m1)) = SCOPE_TRACKING"
    by simp
  with g s p s1 l1 show ?thesis by simp
qed

text \<open>
  A slew to RA 1 h, Dec 2 degrees, and a single reading at the target: the state is
  TRACKING after one call.
\<close>

theorem slew_completion_first_poll_counterexample:
  "Goto False goto_accepted 1 2 ap_tracking =
     (True, ap_tracking\<lparr>targetRA := 1, targetDEC := 2, motionCommanded := True, lastRA := 1,
        lastDE := 2, TrackState := SCOPE_SLEWING, EqNP_s := IPS_BUSY\<rparr>)
   \<and> TrackState (snd (ReadScopeStatus False id (poll_at 1 2)
        (snd (Goto False goto_accepted 1 2 ap_tracking)))) = SCOPE_TRACKING"
  by (simp add: Goto_def goto_accepted_def ap_tracking_def ReadScopeStatus_def poll_at_def)


section \<open>PMC8: frames on the wire\<close>

lemma printf_d_0: "printf_d 0 = ''0''"
  by code_simp

lemma printf_d_1: "printf_d 1 = ''1''"
  by code_simp

lemma exchange_sent:
  "exchange cmd n s = (t, s') \<Longrightarrow> t \<noteq> WriteFailed \<Longrightarrow> sent s' = sent s @ [cmd]"
  by (auto simp: exchange_def split: list.splits port_event.splits if_splits)

lemma exchange_simulation:
  "exchange cmd n s = (t, s') \<Longrightarrow> pmc8_simulation s' = pmc8_simulation s"
  by (auto simp: exchange_def split: list.splits port_event.splits if_splits)

lemma get_pmc8_tracking_rate_axis_sent:
  assumes "get_pmc8_tracking_rate_axis axis s = (Some rate, s')"
  shows "pmc8_simulation s' = pmc8_simulation s
       \<and> sent s' = sent s @ (if pmc8_simulation s then [] else [''ESGr'' @ printf_d (axis_number axis) @ ''!''])"
proof (cases "pmc8_simulation s")
  case True
  with assms show ?thesis
    by (auto simp: get_pmc8_tracking_rate_axis_def split: PMC8_AXIS.splits)
next
  case False
  with assms show ?thesis
    by (auto simp: get_pmc8_tracking_rate_axis_def Let_def
        split: prod.splits transfer.splits if_splits
        dest: exchange_sent exchange_simulation)
qed

lemma get_pmc8_is_scope_slewing_sent:
  assumes "get_pmc8_is_scope_slewing s = (Some isslew, s')"
  shows "sent s' = sent s @ (if pmc8_simulation s then [] else [''ESGr0!'', ''ESGr1!''])"
proof -
  from assms obtain rarate s1 decrate
    where ra: "get_pmc8_tracking_rate_axis PMC8_RA_AXIS s = (Some rarate, s1)"
      and de: "get_pmc8_tracking_rate_axis PMC8_DEC_AXIS s1 = (Some decrate, s')"
    by (auto simp: get_pmc8_is_scope_slewing_def split: prod.splits option.splits if_splits)
  from get_pmc8_tracking_rate_axis_sent [OF ra] get_pmc8_tracking_rate_axis_sent [OF de]
  show ?thesis by (simp add: axis_number_def printf_d_0 printf_d_1)
qed

lemma set_pmc8_direction_axis_sent:
  assumes "\<not> pmc8_simulation s" "set_pmc8_direction_axis axis dir s = (True, s')"
  shows "sent s' = sent s @ [''ESSd'' @ printf_d (axis_number axis) @ printf_d dir @ ''!'']"
  using assms
  by (auto simp: set_pmc8_direction_axis_def Let_def split: prod.splits transfer.splits
      dest: exchange_sent)

text \<open>
  C9. When \<^verbatim>\<open>start_pmc8_motion\<close> is called with a speed index outside \<open>0..3\<close> and the mount
  is not slewing, the index translates to the motor rate 0, the call returns success, and
  the only frames written are the two rate queries of the slewing test (none in
  simulation): no move-rate frame goes to either axis.
\<close>

theorem start_pmc8_motion_bad_index:
  assumes "mode < 0 \<or> 3 < mode"
      and "get_pmc8_is_scope_slewing s = (Some False, s1)"
  shows "convert_movespeedindex_to_rate mode = 0
       \<and> start_pmc8_motion dir mode s = Some (True, s1)
       \<and> sent s1 = sent s @ (if pmc8_simulation s then [] else [''ESGr0!'', ''ESGr1!''])"
proof -
  have r: "convert_movespeedindex_to_rate mode = 0"
    using assms(1) by (auto simp: convert_movespeedindex_to_rate_def)
  have "start_pmc8_motion dir mode s = Some (True, s1)"
    unfolding start_pmc8_motion_def assms(2) r
    by (cases dir) (simp_all add: PMC8_MAX_MOVE_MOTOR_RATE_def)
  with r get_pmc8_is_scope_slewing_sent [OF assms(2)] show ?thesis by simp
qed

text \<open>The index 7, on a mount whose two axes report the rates \<open>0x0035\<close> and \<open>0\<close>.\<close>

theorem start_pmc8_motion_bad_index_witness:
  "start_pmc8_motion PMC8_N 7 (pmc8_start\<lparr>port := [Bytes ''ESGr00035!'', Bytes ''ESGr10000!'']\<rparr>)
     = Some (True, pmc8_start\<lparr>sent := [''ESGr0!'', ''ESGr1!'']\<rparr>)
   \<and> convert_movespeedindex_to_rate 7 = 0"
proof -
  let ?s = "pmc8_start\<lparr>port := [Bytes ''ESGr00035!'', Bytes ''ESGr10000!'']\<rparr>"
  have g: "get_pmc8_is_scope_slewing ?s = (Some False, pmc8_start\<lparr>sent := [''ESGr0!'', ''ESGr1!'']\<rparr>)"
    by code_simp
  have m: "(7::int) < 0 \<or> 3 < (7::int)" by simp
  from start_pmc8_motion_bad_index [OF m g, of PMC8_N] show ?thesis by simp
qed

text \<open>
  The track-rate frame: four hexadecimal digits for a motor rate that is not negative,
  eight for a negative one, which \<^verbatim>\<open>%04X\<close> prints as an unsigned 32-bit value.
\<close>

lemma convert_precise_rate_to_motor_range:
  assumes "convert_precise_rate_to_motor rate = Some rateval"
  shows "- 2641 \<le> rateval" and "rateval \<le> 2641"
  using assms
  by (auto simp: convert_precise_rate_to_motor_def PMC8_MAX_PRECISE_MOTOR_RATE_def
      split: option.splits if_splits)

lemma length_printf_0X_4:
  assumes "0 \<le> n" "n < 65536"
  shows "length (printf_0X 4 n) = 4"
proof -
  have "printf_0X (Suc 3) n = hexW (Suc 3) n"
    using assms by (intro printf_0X_hexW) simp_all
  then have "length (printf_0X (Suc 3) n) = Suc 3"
    by (simp only: length_hexW)
  then show ?thesis by (simp add: eval_nat_numeral)
qed


lemma hex_digits_length_lower: "16 ^ k \<le> n \<Longrightarrow> k < length (hex_digits n)"
proof (induction k arbitrary: n)
  case 0
  show ?case by (subst hex_digits.simps) simp
next
  case (Suc k)
  have one: "(1::int) \<le> 16 ^ k" by simp
  from Suc.prems have p: "16 * 16 ^ k \<le> n" by simp
  from one p have n: "16 \<le> n" by linarith
  from p have "16 ^ k \<le> n div 16" by linarith
  then have "k < length (hex_digits (n div 16))" by (rule Suc.IH)
  with n show ?case by (subst hex_digits.simps) simp
qed

lemma length_printf_0X_wide:
  assumes "268435456 \<le> n" "n < 4294967296"
  shows "length (printf_0X 4 n) = 8"
proof -
  have "printf_0X (Suc 7) n = hexW (Suc 7) n"
    using assms by (intro printf_0X_hexW) simp_all
  then have "length (printf_0X (Suc 7) n) = Suc 7"
    by (simp only: length_hexW)
  then have a: "length (printf_0X 8 n) = 8" by (simp add: eval_nat_numeral)
  have "(16::int) ^ 7 \<le> n" using assms by simp
  then have b: "7 < length (hex_digits n)" by (rule hex_digits_length_lower)
  from a b have "length (hex_digits n) = 8"
    by (simp add: printf_0X_def Let_def split: if_splits)
  then show ?thesis by (simp add: printf_0X_def Let_def)
qed

lemma exchange_echo:
  assumes "port s = Bytes r # es" "n \<le> length r"
  shows "exchange cmd n s = (Received (take n r), s\<lparr>sent := sent s @ [cmd], port := es\<rparr>)"
  using assms by (simp add: exchange_def)

lemma exchange_received_length:
  "exchange cmd n s = (Received response, s') \<Longrightarrow> length response = n"
  by (auto simp: exchange_def split: list.splits port_event.splits if_splits)


lemma u32_of_int_nonneg: "0 \<le> i \<Longrightarrow> i < 4294967296 \<Longrightarrow> u32_of_int i = i"
  by (simp add: u32_of_int_def)

lemma u32_of_int_negative:
  assumes "- 4294967296 \<le> i" "i < 0"
  shows "u32_of_int i = i + 4294967296"
proof -
  have "(i + 4294967296) mod 4294967296 = i + 4294967296"
    using assms by (intro mod_pos_pos_trivial) simp_all
  then show ?thesis by (simp add: u32_of_int_def)
qed

text \<open>
  Outside simulation a negative motor rate makes a frame of 13 bytes; the 13 bytes read
  back are not the 9 that the function expects, and it returns \<^verbatim>\<open>false\<close>.
\<close>

lemma set_pmc8_custom_ra_track_rate_negative:
  assumes ns: "\<not> pmc8_simulation s"
      and rv: "convert_precise_rate_to_motor rate = Some rateval" and neg: "rateval < 0"
  shows "length (''ESTr'' @ printf_0X 4 (u32_of_int rateval) @ ''!'') = 13"
    and "set_pmc8_custom_ra_track_rate rate s \<noteq> Some (True, s')"
proof -
  from convert_precise_rate_to_motor_range [OF rv] neg
  have u: "u32_of_int rateval = rateval + 4294967296"
    by (intro u32_of_int_negative) simp_all
  have "length (printf_0X 4 (rateval + 4294967296)) = 8"
    using convert_precise_rate_to_motor_range [OF rv] neg
    by (intro length_printf_0X_wide) simp_all
  then show len: "length (''ESTr'' @ printf_0X 4 (u32_of_int rateval) @ ''!'') = 13"
    by (simp add: u)
  define cmd where "cmd = ''ESTr'' @ printf_0X 4 (u32_of_int rateval) @ ''!''"
  have l: "length cmd = 13" using len by (simp add: cmd_def)
  show "set_pmc8_custom_ra_track_rate rate s \<noteq> Some (True, s')"
    unfolding set_pmc8_custom_ra_track_rate_def rv option.case Let_def cmd_def [symmetric] l
    using ns
    by (auto split: prod.splits transfer.splits dest!: exchange_received_length)
qed

text \<open>
  C10. For a requested rate whose motor rate is not negative (zero included), a call of
  \<^verbatim>\<open>set_pmc8_custom_ra_track_rate\<close> that succeeds outside simulation has written the
  nine-byte track-rate frame and then, as its last frame, the command that sets the
  direction of the RA axis to 1; and the call does succeed when the mount answers both
  frames in full. In simulation the call, at any rate, records the rate and returns
  success, and that is all it does: the direction stays as it was.
\<close>

theorem set_pmc8_custom_ra_track_rate_direction:
  assumes rv: "convert_precise_rate_to_motor rate = Some rateval"
  shows "(pmc8_simulation s \<longrightarrow>
            set_pmc8_custom_ra_track_rate rate s = Some (True, s\<lparr>trackRate := rate\<rparr>))
       \<and> (\<not> pmc8_simulation s \<and> 0 \<le> rateval \<longrightarrow>
            length (''ESTr'' @ printf_0X 4 rateval @ ''!'') = 9
          \<and> (set_pmc8_custom_ra_track_rate rate s = Some (True, s') \<longrightarrow>
               sent s' = sent s @ [''ESTr'' @ printf_0X 4 rateval @ ''!'', ''ESSd01!''])
          \<and> (port s = Bytes r1 # Bytes r2 # es \<and> 9 \<le> length r1 \<and> 7 \<le> length r2 \<longrightarrow>
               set_pmc8_custom_ra_track_rate rate s =
                 Some (True, s\<lparr>sent := sent s @ [''ESTr'' @ printf_0X 4 rateval @ ''!'', ''ESSd01!''],
                               port := es\<rparr>)))"
proof (intro conjI impI)
  assume "pmc8_simulation s"
  with rv show "set_pmc8_custom_ra_track_rate rate s = Some (True, s\<lparr>trackRate := rate\<rparr>)"
    by (simp add: set_pmc8_custom_ra_track_rate_def Let_def)
next
  assume h: "\<not> pmc8_simulation s \<and> 0 \<le> rateval"
  with convert_precise_rate_to_motor_range [OF rv] have r: "0 \<le> rateval" "rateval < 65536"
    by simp_all
  then show "length (''ESTr'' @ printf_0X 4 rateval @ ''!'') = 9"
    by (simp add: length_printf_0X_4)
next
  assume h: "\<not> pmc8_simulation s \<and> 0 \<le> rateval"
    and ok: "set_pmc8_custom_ra_track_rate rate s = Some (True, s')"
  from h convert_precise_rate_to_motor_range [OF rv] have u: "u32_of_int rateval = rateval"
    by (intro u32_of_int_nonneg) simp_all
  define cmd where "cmd = ''ESTr'' @ printf_0X 4 rateval @ ''!''"
  from ok h obtain response s1
    where ex: "exchange cmd (length cmd) s = (Received response, s1)"
      and dir: "set_pmc8_direction_axis PMC8_RA_AXIS 1 s1 = (True, s')"
    unfolding set_pmc8_custom_ra_track_rate_def rv u option.case Let_def cmd_def [symmetric]
    by (auto split: prod.splits transfer.splits if_splits)
  from ex have 1: "sent s1 = sent s @ [cmd]" by (auto dest: exchange_sent)
  from ex h have "\<not> pmc8_simulation s1" by (auto dest: exchange_simulation)
  from set_pmc8_direction_axis_sent [OF this dir]
  have 2: "sent s' = sent s1 @ [''ESSd01!'']"
    by (simp add: axis_number_def printf_d_0 printf_d_1)
  from 1 2 show "sent s' = sent s @ [''ESTr'' @ printf_0X 4 rateval @ ''!'', ''ESSd01!'']"
    by (simp add: cmd_def)
next
  assume h: "\<not> pmc8_simulation s \<and> 0 \<le> rateval"
    and p: "port s = Bytes r1 # Bytes r2 # es \<and> 9 \<le> length r1 \<and> 7 \<le> length r2"
  from h convert_precise_rate_to_motor_range [OF rv]
  have r: "0 \<le> rateval" "rateval < 65536" by simp_all
  then have u: "u32_of_int rateval = rateval" by (intro u32_of_int_nonneg) simp_all
  define cmd where "cmd = ''ESTr'' @ printf_0X 4 rateval @ ''!''"
  have len: "length cmd = 9" using r by (simp add: cmd_def length_printf_0X_4)
  define s1 where "s1 = s\<lparr>sent := sent s @ [cmd], port := Bytes r2 # es\<rparr>"
  have ex: "exchange cmd 9 s = (Received (take 9 r1), s1)"
    unfolding s1_def using p by (intro exchange_echo) simp_all
  have s1: "\<not> pmc8_simulation s1" "port s1 = Bytes r2 # es" "sent s1 = sent s @ [cmd]"
    using h by (simp_all add: s1_def)
  have ex2: "exchange ''ESSd01!'' 7 s1
      = (Received (take 7 r2), s1\<lparr>sent := sent s1 @ [''ESSd01!''], port := es\<rparr>)"
    using s1(2) p by (intro exchange_echo) simp_all
  have dir: "set_pmc8_direction_axis PMC8_RA_AXIS 1 s1
      = (True, s1\<lparr>sent := sent s1 @ [''ESSd01!''], port := es\<rparr>)"
    using s1(1) p
    by (simp add: set_pmc8_direction_axis_def axis_number_def printf_d_0 printf_d_1 ex2)
  have "set_pmc8_custom_ra_track_rate rate s
      = Some (True, s1\<lparr>sent := sent s1 @ [''ESSd01!''], port := es\<rparr>)"
    unfolding set_pmc8_custom_ra_track_rate_def rv u option.case Let_def cmd_def [symmetric] len
    using h p by (simp add: ex dir)
  then show "set_pmc8_custom_ra_track_rate rate s =
      Some (True, s\<lparr>sent := sent s @ [''ESTr'' @ printf_0X 4 rateval @ ''!'', ''ESSd01!''],
                    port := es\<rparr>)"
    by (simp add: s1_def cmd_def)
qed

text \<open>
  The rates 15 and 0 arcsec per sidereal second on a mount that echoes both frames, and
  the rate -1 in simulation.
\<close>

theorem set_pmc8_custom_ra_track_rate_direction_witness:
  "convert_precise_rate_to_motor 15 = Some 1333
   \<and> convert_precise_rate_to_motor 0 = Some 0
   \<and> set_pmc8_custom_ra_track_rate 15 (pmc8_start\<lparr>port := [Bytes ''ESTr0535!'', Bytes ''ESSd01!'']\<rparr>)
       = Some (True, pmc8_start\<lparr>sent := [''ESTr0535!'', ''ESSd01!'']\<rparr>)
   \<and> set_pmc8_custom_ra_track_rate 0 (pmc8_start\<lparr>port := [Bytes ''ESTr0000!'', Bytes ''ESSd01!'']\<rparr>)
       = Some (True, pmc8_start\<lparr>sent := [''ESTr0000!'', ''ESSd01!'']\<rparr>)
   \<and> set_pmc8_custom_ra_track_rate (- 1) (pmc8_start\<lparr>pmc8_simulation := True\<rparr>)
       = Some (True, pmc8_start\<lparr>pmc8_simulation := True, trackRate := - 1\<rparr>)"
proof -
  let ?s = "pmc8_start\<lparr>port := [Bytes ''ESTr0535!'', Bytes ''ESSd01!'']\<rparr>"
  let ?z = "pmc8_start\<lparr>port := [Bytes ''ESTr0000!'', Bytes ''ESSd01!'']\<rparr>"
  let ?sim = "pmc8_start\<lparr>pmc8_simulation := True\<rparr>"
  have c15: "convert_precise_rate_to_motor 15 = Some 1333" by code_simp
  have c0: "convert_precise_rate_to_motor 0 = Some 0" by code_simp
  have cm: "convert_precise_rate_to_motor (- 1) = Some (- 88)" by code_simp
  have f15: "''ESTr'' @ printf_0X 4 1333 @ ''!'' = ''ESTr0535!''" by code_simp
  have f0: "''ESTr'' @ printf_0X 4 0 @ ''!'' = ''ESTr0000!''" by code_simp
  have ns: "\<not> pmc8_simulation ?s" "\<not> pmc8_simulation ?z" "pmc8_simulation ?sim"
    by (simp_all add: pmc8_start_def)
  have ps: "port ?s = Bytes ''ESTr0535!'' # Bytes ''ESSd01!'' # []"
    "port ?z = Bytes ''ESTr0000!'' # Bytes ''ESSd01!'' # []"
    by (simp_all add: pmc8_start_def)
  have snt: "sent ?s = []" "sent ?z = []" by (simp_all add: pmc8_start_def)
  from set_pmc8_custom_ra_track_rate_direction
    [OF c15, of ?s "pmc8_start\<lparr>sent := [''ESTr0535!'', ''ESSd01!'']\<rparr>"
       "''ESTr0535!''" "''ESSd01!''" "[]"] ns(1) ps(1)
  have a: "set_pmc8_custom_ra_track_rate 15 ?s
       = Some (True, pmc8_start\<lparr>sent := [''ESTr0535!'', ''ESSd01!'']\<rparr>)"
    unfolding f15 by (simp add: pmc8_start_def)
  from set_pmc8_custom_ra_track_rate_direction
    [OF c0, of ?z "pmc8_start\<lparr>sent := [''ESTr0000!'', ''ESSd01!'']\<rparr>"
       "''ESTr0000!''" "''ESSd01!''" "[]"] ns(2) ps(2)
  have b: "set_pmc8_custom_ra_track_rate 0 ?z
       = Some (True, pmc8_start\<lparr>sent := [''ESTr0000!'', ''ESSd01!'']\<rparr>)"
    unfolding f0 by (simp add: pmc8_start_def)
  from set_pmc8_custom_ra_track_rate_direction [OF cm, of ?sim] ns(3)
  have c: "set_pmc8_custom_ra_track_rate (- 1) ?sim
       = Some (True, pmc8_start\<lparr>pmc8_simulation := True, trackRate := - 1\<rparr>)"
    by simp
  from c15 c0 a b c show ?thesis by simp
qed

text \<open>
  In simulation, with the simulated RA direction at 0, the call succeeds and the
  direction is still 0.
\<close>

theorem custom_ra_track_rate_simulation_counterexample:
  "set_pmc8_custom_ra_track_rate 15 (pmc8_start\<lparr>pmc8_simulation := True\<rparr>)
     = Some (True, pmc8_start\<lparr>pmc8_simulation := True, trackRate := 15\<rparr>)
   \<and> raDirection (pmc8_start\<lparr>pmc8_simulation := True, trackRate := 15\<rparr>) = 0
   \<and> sent (pmc8_start\<lparr>pmc8_simulation := True, trackRate := 15\<rparr>) = []"
  by code_simp

end
